theory Spec2Isabelle
  imports Complex_Main
begin

section \<open>Python values\<close>

text \<open>
  A Python \<^verbatim>\<open>str\<close> is a sequence of Unicode code points: a character is its code point
  (\<^verbatim>\<open>ord(c)\<close>), a string the list of them, so that \<open>length\<close> is \<^verbatim>\<open>len\<close>. String
  literals of the source that are ASCII are written with \<open>lit\<close>.
\<close>

type_synonym pychar = nat
type_synonym pystr = "pychar list"

definition lit :: "string \<Rightarrow> pystr" where
  "lit s = map of_char s"

text \<open>
  Exceptions are values. \<open>NonException\<close> stands for a \<^verbatim>\<open>BaseException\<close> that is not
  an \<^verbatim>\<open>Exception\<close> (\<^verbatim>\<open>KeyboardInterrupt\<close>, \<^verbatim>\<open>SystemExit\<close>): the handlers
  \<^verbatim>\<open>except Exception\<close> of the source do not catch it.
\<close>

datatype py_error = IndexError | KeyError | ValueError | OtherException | NonException

fun is_Exception :: "py_error \<Rightarrow> bool" where
  "is_Exception NonException = False"
| "is_Exception _ = True"

text \<open>
  The character classes of the Unicode database that the interpreter consults
  (\<^verbatim>\<open>Py_UNICODE_ISALPHA\<close>, \<^verbatim>\<open>Py_UNICODE_ISUPPER\<close>, ...) are not part of the repository: they
  are a parameter of every function that classifies characters. \<open>uc_numeric\<close> holds for the
  decimal, digit and numeric characters.
\<close>

record unicode_tables =
  uc_alpha :: "pychar \<Rightarrow> bool"
  uc_numeric :: "pychar \<Rightarrow> bool"
  uc_upper :: "pychar \<Rightarrow> bool"
  uc_lower :: "pychar \<Rightarrow> bool"
  uc_title :: "pychar \<Rightarrow> bool"
  uc_space :: "pychar \<Rightarrow> bool"

text \<open>
  The tables restricted to ASCII, as the interpreter has them there: letters \<^verbatim>\<open>A-Z\<close> and
  \<^verbatim>\<open>a-z\<close>, digits \<^verbatim>\<open>0-9\<close>, whitespace \<^verbatim>\<open>\t \n \v \f \r\<close>, the separators
  \<^verbatim>\<open>0x1c-0x1f\<close> and the space. No code point from 128 on is classified.
\<close>

definition ascii_tables :: unicode_tables where
  "ascii_tables = \<lparr>
     uc_alpha = (\<lambda>c. (65 \<le> c \<and> c \<le> 90) \<or> (97 \<le> c \<and> c \<le> 122)),
     uc_numeric = (\<lambda>c. 48 \<le> c \<and> c \<le> 57),
     uc_upper = (\<lambda>c. 65 \<le> c \<and> c \<le> 90),
     uc_lower = (\<lambda>c. 97 \<le> c \<and> c \<le> 122),
     uc_title = (\<lambda>c. False),
     uc_space = (\<lambda>c. (9 \<le> c \<and> c \<le> 13) \<or> (28 \<le> c \<and> c \<le> 32)) \<rparr>"

text \<open>\<^verbatim>\<open>s.isalpha()\<close>: at least one character, and all of them alphabetic.\<close>

definition str_isalpha :: "unicode_tables \<Rightarrow> pystr \<Rightarrow> bool" where
  "str_isalpha db s = (s \<noteq> [] \<and> list_all (uc_alpha db) s)"

text \<open>
  \<^verbatim>\<open>s.isupper()\<close>: no lowercase and no titlecase character, and at least one uppercase
  character. \<^verbatim>\<open>s.islower()\<close> is the mirror image. Both are false on the empty string.
\<close>

definition str_isupper :: "unicode_tables \<Rightarrow> pystr \<Rightarrow> bool" where
  "str_isupper db s =
     (list_all (\<lambda>c. \<not> uc_lower db c \<and> \<not> uc_title db c) s \<and> list_ex (uc_upper db) s)"

definition str_islower :: "unicode_tables \<Rightarrow> pystr \<Rightarrow> bool" where
  "str_islower db s =
     (list_all (\<lambda>c. \<not> uc_upper db c \<and> \<not> uc_title db c) s \<and> list_ex (uc_lower db) s)"

text \<open>
  \<^verbatim>\<open>s.split()\<close> without arguments: the maximal runs of non-whitespace characters, scanned
  from the left; \<open>cur\<close> is the token being read.
\<close>

fun split_scan :: "unicode_tables \<Rightarrow> pystr \<Rightarrow> pystr \<Rightarrow> pystr list" where
  "split_scan db cur [] = (if cur = [] then [] else [cur])"
| "split_scan db cur (c # cs) =
     (if uc_space db c
      then (if cur = [] then split_scan db [] cs else cur # split_scan db [] cs)
      else split_scan db (cur @ [c]) cs)"

definition py_split :: "unicode_tables \<Rightarrow> pystr \<Rightarrow> pystr list" where
  "py_split db s = split_scan db [] s"

text \<open>\<^verbatim>\<open>s.strip()\<close> without arguments removes the whitespace at both ends.\<close>

definition py_strip :: "unicode_tables \<Rightarrow> pystr \<Rightarrow> pystr" where
  "py_strip db s = rev (dropWhile (uc_space db) (rev (dropWhile (uc_space db) s)))"

text \<open>\<^verbatim>\<open>sep.join(xs)\<close>.\<close>

fun py_join :: "pystr \<Rightarrow> pystr list \<Rightarrow> pystr" where
  "py_join sep [] = []"
| "py_join sep [x] = x"
| "py_join sep (x # y # ys) = x @ sep @ py_join sep (y # ys)"

text \<open>
  What a Python expression of the source can evaluate to where the claims depend on it:
  \<^verbatim>\<open>text and text[0] in bullets\<close> is a string or a boolean. \<open>truthy\<close> is \<^verbatim>\<open>bool(v)\<close>.
\<close>

datatype py_value = PyStr pystr | PyBool bool

fun truthy :: "py_value \<Rightarrow> bool" where
  "truthy (PyStr s) = (s \<noteq> [])"
| "truthy (PyBool b) = b"

text \<open>\<^verbatim>\<open>s[i]\<close> for \<^verbatim>\<open>i >= 0\<close>: out of range it raises \<^verbatim>\<open>IndexError\<close>.\<close>

definition str_index :: "pystr \<Rightarrow> nat \<Rightarrow> py_error + pychar" where
  "str_index s i = (if i < length s then Inr (s ! i) else Inl IndexError)"

section \<open>The linguistic heuristics (nlp.py)\<close>

definition is_all_caps :: "unicode_tables \<Rightarrow> pystr \<Rightarrow> pystr \<Rightarrow> bool" where
  "is_all_caps db text lang_code =
     (if lang_code = lit ''ja'' then False
      else (let letters = filter (\<lambda>c. str_isalpha db [c]) text
            in letters \<noteq> [] \<and> list_all (\<lambda>c. str_isupper db [c]) letters))"

text \<open>
  \<^verbatim>\<open>w[0]\<close> is in range, since a word that passed \<^verbatim>\<open>w.isalpha()\<close> is not empty; the
  slice \<^verbatim>\<open>w[1:]\<close> is \<open>tl w\<close>.
\<close>

definition is_title_case :: "unicode_tables \<Rightarrow> pystr \<Rightarrow> pystr \<Rightarrow> bool" where
  "is_title_case db text lang_code =
     (if lang_code = lit ''ja'' then False
      else (let words = filter (str_isalpha db) (py_split db text)
            in if words = [] then False
               else list_all (\<lambda>w. str_isupper db [hd w] \<and> str_islower db (tl w)) words))"

definition bullets :: "pychar set" where
  "bullets = {8226, 9679, 45, 42, 9642, 8227, 8211, 8212}"

definition starts_with_bullet :: "pystr \<Rightarrow> py_error + py_value" where
  "starts_with_bullet text =
     (if text = [] then Inr (PyStr text)
      else (case str_index text 0 of
              Inl e \<Rightarrow> Inl e
            | Inr c \<Rightarrow> Inr (PyBool (c \<in> bullets))))"

definition is_short :: "unicode_tables \<Rightarrow> pystr \<Rightarrow> nat \<Rightarrow> nat \<Rightarrow> pystr \<Rightarrow> bool" where
  "is_short db text max_words max_chars lang_code =
     (if lang_code = lit ''ja'' then length text \<le> max_chars
      else length text \<le> max_chars \<and> length (py_split db text) \<le> max_words)"

text \<open>
  The quotient of two integers is a Python float; it is modelled by the exact rational. The
  result \<^verbatim>\<open>0\<close> of the early returns is the integer zero, which compares like it.
\<close>

definition uppercase_ratio :: "unicode_tables \<Rightarrow> pystr \<Rightarrow> pystr \<Rightarrow> rat" where
  "uppercase_ratio db text lang_code =
     (if lang_code = lit ''ja'' then 0
      else (let letters = filter (\<lambda>c. str_isalpha db [c]) text
            in if letters = [] then 0
               else of_nat (length (filter (\<lambda>c. str_isupper db [c]) letters))
                      / of_nat (length letters)))"

text \<open>
  The linguistic-analysis engine (spaCy) is outside the repository. An engine is the function
  from a text to its sentences; of a sentence the source reads the tokens, with their
  \<^verbatim>\<open>is_space\<close> flag, and the text. \<^verbatim>\<open>spacy.load\<close> is the parameter \<open>load\<close>: it returns
  an engine or raises.
\<close>

record token =
  tok_text :: pystr
  is_space :: bool

record sentence =
  sent_tokens :: "token list"
  sent_text :: pystr

type_synonym engine = "pystr \<Rightarrow> sentence list"

text \<open>Dictionaries with literal keys are association lists; \<^verbatim>\<open>d[k]\<close> raises on a missing key.\<close>

definition dict_item :: "('k \<times> 'v) list \<Rightarrow> 'k \<Rightarrow> py_error + 'v" where
  "dict_item d k = (case map_of d k of None \<Rightarrow> Inl KeyError | Some v \<Rightarrow> Inr v)"

definition LANG_MODELS :: "(pystr \<times> pystr) list" where
  "LANG_MODELS =
     [(lit ''en'', lit ''en_core_web_sm''),
      (lit ''es'', lit ''es_core_news_sm''),
      (lit ''ja'', lit ''ja_core_news_sm'')]"

text \<open>
  \<open>get_nlp\<close> is the function under the decorator: the handler catches what
  \<^verbatim>\<open>spacy.load(model)\<close> raises and loads the English model; nothing catches what that
  second call raises.
\<close>

definition get_nlp :: "(pystr \<Rightarrow> py_error + engine) \<Rightarrow> pystr \<Rightarrow> py_error + engine" where
  "get_nlp load lang_code =
     (case dict_item LANG_MODELS (lit ''en'') of
        Inl e \<Rightarrow> Inl e
      | Inr dflt \<Rightarrow>
          (let model = (case map_of LANG_MODELS lang_code of Some m \<Rightarrow> m | None \<Rightarrow> dflt)
           in case load model of
                Inr nlp \<Rightarrow> Inr nlp
              | Inl e \<Rightarrow>
                  if is_Exception e
                  then (case dict_item LANG_MODELS (lit ''en'') of
                          Inl e' \<Rightarrow> Inl e'
                        | Inr m \<Rightarrow> load m)
                  else Inl e))"




text \<open>
  \<^verbatim>\<open>re.search(r"[.!?...]$", s)\<close> with the six closing marks \<^verbatim>\<open>. ! ?\<close> and their
  full-width forms: \<^verbatim>\<open>$\<close> matches at the end of \<open>s\<close>, and before a newline that ends \<open>s\<close>.
\<close>

definition sentence_marks :: "pychar set" where
  "sentence_marks = {46, 33, 63, 12290, 65281, 65311}"

definition search_final_mark :: "pystr \<Rightarrow> bool" where
  "search_final_mark s =
     ((s \<noteq> [] \<and> last s \<in> sentence_marks)
      \<or> (2 \<le> length s \<and> last s = 10 \<and> last (butlast s) \<in> sentence_marks))"

definition is_full_sentence ::
  "unicode_tables \<Rightarrow> (pystr \<Rightarrow> py_error + engine) \<Rightarrow> pystr \<Rightarrow> pystr \<Rightarrow> py_error + bool" where
  "is_full_sentence db load text lang_code =
     (case get_nlp load lang_code of
        Inl e \<Rightarrow> Inl e
      | Inr nlp \<Rightarrow>
          Inr (list_ex
                 (\<lambda>sent. 2 < length (filter (\<lambda>t. \<not> is_space t) (sent_tokens sent))
                         \<and> search_final_mark (py_strip db (sent_text sent)))
                 (nlp text)))"

section \<open>Spans and the outline (process\_pdfs.py)\<close>

text \<open>
  Python floats are IEEE binary64 numbers. A finite one is modelled by the rational it
  denotes; comparison is exact. \<open>fl64\<close> rounds a rational to the nearest double, ties to
  the even significand: \<open>quantum a\<close> is the spacing of the doubles at the magnitude \<open>a\<close>, the
  power of two that brings \<open>a\<close> into the range from \<open>2^52\<close> to \<open>2^53\<close>, and not less than
  \<open>2^-1074\<close>, the spacing of the subnormal numbers. Beyond the largest double the program
  has an infinity where \<open>fl64\<close> has a large rational; the source only compares the result
  of a subtraction with \<^verbatim>\<open>0.5\<close>, which is false of both. \<open>fsub\<close> is the subtraction of two
  floats.
\<close>

definition round_half_even :: "rat \<Rightarrow> int" where
  "round_half_even x =
     (let f = \<lfloor>x\<rfloor>; r = x - of_int f
      in if r < 1 / 2 then f else if 1 / 2 < r then f + 1 else if even f then f else f + 1)"

fun quantum_up :: "nat \<Rightarrow> rat \<Rightarrow> rat \<Rightarrow> rat" where
  "quantum_up 0 x q = q"
| "quantum_up (Suc n) x q = (if x < 2 ^ 52 then quantum_up n (2 * x) (q / 2) else q)"

fun quantum_down :: "nat \<Rightarrow> rat \<Rightarrow> rat \<Rightarrow> rat" where
  "quantum_down 0 x q = q"
| "quantum_down (Suc n) x q = (if 2 ^ 53 \<le> x then quantum_down n (x / 2) (2 * q) else q)"

definition quantum :: "rat \<Rightarrow> rat" where
  "quantum a = quantum_down 971 a (quantum_up 1074 a 1)"

definition fl64 :: "rat \<Rightarrow> rat" where
  "fl64 x =
     (if x = 0 then 0
      else sgn x * (of_int (round_half_even (\<bar>x\<bar> / quantum \<bar>x\<bar>)) * quantum \<bar>x\<bar>))"

definition fsub :: "rat \<Rightarrow> rat \<Rightarrow> rat" where
  "fsub a b = fl64 (a - b)"

text \<open>
  A span as \<open>extract_blocks_with_metadata\<close> builds it. Sizes and coordinates are floats.
\<close>

record block =
  span_text :: pystr
  font :: pystr
  span_size :: rat
  flags :: int
  bbox :: "rat \<times> rat \<times> rat \<times> rat"
  page :: int
  origin :: "rat \<times> rat"


text \<open>
  \<^verbatim>\<open>\w\<close> in a \<^verbatim>\<open>str\<close> pattern: an alphanumeric character or the underscore.
\<close>

definition is_word :: "unicode_tables \<Rightarrow> pychar \<Rightarrow> bool" where
  "is_word db c = (uc_alpha db c \<or> uc_numeric db c \<or> c = 95)"

text \<open>
  \<^verbatim>\<open>re.sub(r'(\w)\1{2,}', r'\1', text)\<close>: the scan goes from left to right; at a word
  character followed by at least two copies of itself the greedy repetition takes all the
  copies and the match is replaced by the character; anywhere else the character is kept
  and the scan moves one position on.
\<close>

function sub_repeated :: "unicode_tables \<Rightarrow> pystr \<Rightarrow> pystr" where
  "sub_repeated db [] = []"
| "sub_repeated db (c # cs) =
     (if is_word db c \<and> 2 \<le> length (takeWhile (\<lambda>x. x = c) cs)
      then c # sub_repeated db (dropWhile (\<lambda>x. x = c) cs)
      else c # sub_repeated db cs)"
  by pat_completeness auto
termination
  by (relation "measure (\<lambda>(db, s). length s)") (auto simp: length_dropWhile_le less_Suc_eq_le)

text \<open>\<^verbatim>\<open>re.sub(r'\s{2,}', ' ', text)\<close>, in the same way.\<close>

function sub_spaces :: "unicode_tables \<Rightarrow> pystr \<Rightarrow> pystr" where
  "sub_spaces db [] = []"
| "sub_spaces db (c # cs) =
     (if uc_space db c \<and> 1 \<le> length (takeWhile (uc_space db) cs)
      then 32 # sub_spaces db (dropWhile (uc_space db) cs)
      else c # sub_spaces db cs)"
  by pat_completeness auto
termination
  by (relation "measure (\<lambda>(db, s). length s)") (auto simp: length_dropWhile_le less_Suc_eq_le)

text \<open>The loop over \<^verbatim>\<open>words\<close>, with its two variables \<^verbatim>\<open>seen\<close> and \<^verbatim>\<open>result\<close>.\<close>

fun dedup_loop :: "pystr list \<Rightarrow> pystr set \<Rightarrow> pystr list \<Rightarrow> pystr list" where
  "dedup_loop [] seen result = result"
| "dedup_loop (word # words) seen result =
     (if word \<notin> seen then dedup_loop words (insert word seen) (result @ [word])
      else dedup_loop words seen result)"

definition clean_repetitions :: "unicode_tables \<Rightarrow> pystr \<Rightarrow> pystr" where
  "clean_repetitions db text =
     (let text1 = sub_repeated db text;
          text2 = sub_spaces db text1;
          words = py_split db text2
      in py_join (lit '' '') (dedup_loop words {} []))"

text \<open>
  \<^verbatim>\<open>max\<close> of a sequence raises \<^verbatim>\<open>ValueError\<close> when it is empty. \<^verbatim>\<open>sorted\<close> is a stable
  sort by the key.
\<close>

fun py_max :: "rat list \<Rightarrow> py_error + rat" where
  "py_max [] = Inl ValueError"
| "py_max (x # xs) = Inr (fold (\<lambda>v m. if m < v then v else m) xs x)"

definition py_sorted :: "('a \<Rightarrow> rat) \<Rightarrow> 'a list \<Rightarrow> 'a list" where
  "py_sorted key xs = sort_key key xs"

definition detect_title :: "unicode_tables \<Rightarrow> block list \<Rightarrow> pystr \<Rightarrow> py_error + pystr" where
  "detect_title db blocks lang_code =
     (let first_page_blocks = filter (\<lambda>b. page b = 1 \<and> span_text b \<noteq> []) blocks
      in if first_page_blocks = [] then Inr []
         else (case py_max (map span_size first_page_blocks) of
                 Inl e \<Rightarrow> Inl e
               | Inr max_size \<Rightarrow>
                   (let title_blocks =
                          filter (\<lambda>b. \<bar>fsub (span_size b) max_size\<bar> < 0.5) first_page_blocks;
                        title_blocks' = py_sorted (\<lambda>b. snd (origin b)) title_blocks;
                        title = py_join (lit '' '') (map span_text title_blocks');
                        title' = clean_repetitions db title
                    in Inr (py_strip db title'))))"

definition compute_font_stats :: "block list \<Rightarrow> (pystr \<times> rat) list" where
  "compute_font_stats blocks = [(lit ''H1'', 20.04), (lit ''H2'', 15.96), (lit ''H3'', 12.0)]"

definition heading_level :: "block \<Rightarrow> (pystr \<times> rat) list \<Rightarrow> py_error + pystr option" where
  "heading_level block font_stats =
     (let size = span_size block
      in case dict_item font_stats (lit ''H1'') of
           Inl e \<Rightarrow> Inl e
         | Inr h1 \<Rightarrow>
             if \<bar>size - h1\<bar> < 0.1 then Inr (Some (lit ''H1''))
             else (case dict_item font_stats (lit ''H2'') of
                     Inl e \<Rightarrow> Inl e
                   | Inr h2 \<Rightarrow>
                       if \<bar>size - h2\<bar> < 0.1 then Inr (Some (lit ''H2''))
                       else (case dict_item font_stats (lit ''H3'') of
                               Inl e \<Rightarrow> Inl e
                             | Inr h3 \<Rightarrow>
                                 if \<bar>size - h3\<bar> < 0.1 then Inr (Some (lit ''H3''))
                                 else Inr None)))"

definition is_heading_candidate ::
  "unicode_tables \<Rightarrow> (pystr \<Rightarrow> py_error + engine) \<Rightarrow> block \<Rightarrow> pystr \<Rightarrow> py_error + bool" where
  "is_heading_candidate db load block lang_code =
     (let text = span_text block
      in if text = [] then Inr False
         else (case starts_with_bullet text of
                 Inl e \<Rightarrow> Inl e
               | Inr bullet \<Rightarrow>
                   if truthy bullet \<or> \<not> is_short db text 14 80 lang_code then Inr False
                   else (case is_full_sentence db load text lang_code of
                           Inl e \<Rightarrow> Inl e
                         | Inr full \<Rightarrow>
                             if full then Inr False
                             else if is_all_caps db text lang_code
                                     \<or> is_title_case db text lang_code
                                     \<or> uppercase_ratio db text lang_code > 0.5
                                  then Inr True
                                  else Inr False)))"

record heading_entry =
  level :: pystr
  entry_text :: pystr
  entry_page :: int

text \<open>
  The loop of \<open>extract_outline\<close>, with \<^verbatim>\<open>outline\<close> as its state. The test
  \<^verbatim>\<open>level and ...\<close> does not call \<open>is_heading_candidate\<close> when the level is \<^verbatim>\<open>None\<close>.
\<close>

fun outline_loop ::
  "unicode_tables \<Rightarrow> (pystr \<Rightarrow> py_error + engine) \<Rightarrow> (pystr \<times> rat) list \<Rightarrow> pystr
   \<Rightarrow> block list \<Rightarrow> heading_entry list \<Rightarrow> py_error + heading_entry list" where
  "outline_loop db load font_stats lang_code [] outline = Inr outline"
| "outline_loop db load font_stats lang_code (block # blocks) outline =
     (case heading_level block font_stats of
        Inl e \<Rightarrow> Inl e
      | Inr None \<Rightarrow> outline_loop db load font_stats lang_code blocks outline
      | Inr (Some lv) \<Rightarrow>
          if lv = [] then outline_loop db load font_stats lang_code blocks outline
          else (case is_heading_candidate db load block lang_code of
                  Inl e \<Rightarrow> Inl e
                | Inr cand \<Rightarrow>
                    if cand
                    then outline_loop db load font_stats lang_code blocks
                           (outline @ [\<lparr>level = lv, entry_text = span_text block,
                                        entry_page = page block - 1\<rparr>])
                    else outline_loop db load font_stats lang_code blocks outline))"

definition extract_outline ::
  "unicode_tables \<Rightarrow> (pystr \<Rightarrow> py_error + engine) \<Rightarrow> block list \<Rightarrow> pystr
   \<Rightarrow> py_error + heading_entry list" where
  "extract_outline db load blocks lang_code =
     (let font_stats = compute_font_stats blocks
      in outline_loop db load font_stats lang_code blocks [])"

section \<open>The specification's words, and an example document\<close>

text \<open>
  The title band of the specification: the spans of page 1 with a non-empty text whose size
  is less than 0.5 away from the maximum of the sizes of these spans, the difference of
  the two floats being their float difference.
\<close>

definition title_band :: "block list \<Rightarrow> block list" where
  "title_band blocks =
     (let first_page = filter (\<lambda>b. page b = 1 \<and> span_text b \<noteq> []) blocks
      in filter (\<lambda>b. \<bar>fsub (span_size b) (Max (set (map span_size first_page)))\<bar> < 0.5)
           first_page)"

text \<open>
  A document of five spans: a title in two spans given bottom first, two headings and a
  sentence of body text; the sizes are doubles. Its engine makes one
  sentence of a text, with the whitespace-delimited words as tokens; only the English model
  can be loaded. The two spans of \<open>boundary_spans\<close> have the doubles of \<^verbatim>\<open>0.6\<close> and
  \<^verbatim>\<open>0.1\<close> as sizes: their float difference is \<^verbatim>\<open>0.5\<close>. \<open>history_span\<close> is a heading
  in title case with a one-letter word, \<open>brief_span\<close> the same without that word.
\<close>

definition example_spans :: "block list" where
  "example_spans =
     [\<lparr>span_text = lit ''PAPER'', font = lit ''Arial'', span_size = 24, flags = 16,
        bbox = (72, 30, 200, 54), page = 1, origin = (72, 30)\<rparr>,
      \<lparr>span_text = lit ''TITLE OF'', font = lit ''Arial'', span_size = 24, flags = 16,
        bbox = (72, 10, 200, 34), page = 1, origin = (72, 10)\<rparr>,
      \<lparr>span_text = lit ''Introduction'', font = lit ''Arial'', span_size = 20.5, flags = 16,
        bbox = (72, 50, 200, 70), page = 1, origin = (72, 50)\<rparr>,
      \<lparr>span_text = lit ''This describes the background.'', font = lit ''Arial'',
        span_size = 12, flags = 0, bbox = (72, 80, 300, 92), page = 1, origin = (72, 80)\<rparr>,
      \<lparr>span_text = lit ''RELATED WORK'', font = lit ''Arial'', span_size = 16, flags = 16,
        bbox = (72, 20, 200, 36), page = 2, origin = (72, 20)\<rparr>]"

definition boundary_spans :: "block list" where
  "boundary_spans =
     [\<lparr>span_text = lit ''Big'', font = lit ''Arial'', span_size = fl64 0.6, flags = 0,
        bbox = (72, 10, 200, 11), page = 1, origin = (72, 10)\<rparr>,
      \<lparr>span_text = lit ''Small'', font = lit ''Arial'', span_size = fl64 0.1, flags = 0,
        bbox = (72, 20, 200, 21), page = 1, origin = (72, 20)\<rparr>]"

definition history_span :: block where
  "history_span =
     \<lparr>span_text = lit ''A Brief History'', font = lit ''Arial'', span_size = 20.04, flags = 16,
       bbox = (72, 50, 300, 70), page = 1, origin = (72, 50)\<rparr>"

definition brief_span :: block where
  "brief_span =
     \<lparr>span_text = lit ''Brief History'', font = lit ''Arial'', span_size = 20.04, flags = 16,
       bbox = (72, 50, 300, 70), page = 1, origin = (72, 50)\<rparr>"

definition example_engine :: engine where
  "example_engine text =
     [\<lparr>sent_tokens = map (\<lambda>w. \<lparr>tok_text = w, is_space = False\<rparr>) (py_split ascii_tables text),
       sent_text = text\<rparr>]"

definition example_load :: "pystr \<Rightarrow> py_error + engine" where
  "example_load model =
     (if model = lit ''en_core_web_sm'' then Inr example_engine else Inl OtherException)"

text \<open>
  A string without three equal consecutive characters of the class \<open>P\<close>: what
  \<open>sub_repeated\<close> leaves nothing to do on, for the word characters.
\<close>

fun no_triple :: "(pychar \<Rightarrow> bool) \<Rightarrow> pystr \<Rightarrow> bool" where
  "no_triple P (a # b # c # r) = (\<not> (P a \<and> a = b \<and> b = c) \<and> no_triple P (b # c # r))"
| "no_triple P [a, b] = True"
| "no_triple P [a] = True"
| "no_triple P [] = True"

text \<open>
  The reference transform of the specification for the repetition cleaner. \<open>groups f s\<close>
  cuts \<open>s\<close> into its maximal blocks on which \<open>f\<close> is constant: with the identity, the
  maximal runs of identical characters; with the whitespace class, the maximal runs of
  whitespace and the whitespace-delimited tokens between them.
\<close>

function groups :: "('a \<Rightarrow> 'b) \<Rightarrow> 'a list \<Rightarrow> 'a list list" where
  "groups f [] = []"
| "groups f (x # xs) =
     (x # takeWhile (\<lambda>y. f y = f x) xs) # groups f (dropWhile (\<lambda>y. f y = f x) xs)"
  by pat_completeness auto
termination
  by (relation "measure (\<lambda>(f, s). length s)") (auto simp: length_dropWhile_le less_Suc_eq_le)

text \<open>
  Step 1: every maximal run of three or more identical characters of the class \<open>P\<close>
  becomes a single instance. Step 2: every maximal run of two or more whitespace characters
  becomes one space. Step 3: of the whitespace-delimited tokens, the first occurrence of
  each is kept, in the order given; the tokens are joined with one space.
\<close>

definition spec_collapse_runs :: "(pychar \<Rightarrow> bool) \<Rightarrow> pystr \<Rightarrow> pystr" where
  "spec_collapse_runs P s =
     concat (map (\<lambda>r. if 3 \<le> length r \<and> P (hd r) then [hd r] else r) (groups (\<lambda>c. c) s))"

definition spec_collapse_spaces :: "unicode_tables \<Rightarrow> pystr \<Rightarrow> pystr" where
  "spec_collapse_spaces db s =
     concat (map (\<lambda>g. if 2 \<le> length g \<and> uc_space db (hd g) then [32] else g)
               (groups (uc_space db) s))"

definition spec_tokens :: "unicode_tables \<Rightarrow> pystr \<Rightarrow> pystr list" where
  "spec_tokens db s = filter (\<lambda>g. \<not> uc_space db (hd g)) (groups (uc_space db) s)"

definition first_occurrences :: "'a list \<Rightarrow> 'a list" where
  "first_occurrences ws =
     map (\<lambda>i. ws ! i) (filter (\<lambda>i. ws ! i \<notin> set (take i ws)) [0..<length ws])"

definition spec_clean_repetitions :: "(pychar \<Rightarrow> bool) \<Rightarrow> unicode_tables \<Rightarrow> pystr \<Rightarrow> pystr" where
  "spec_clean_repetitions P db s =
     py_join (lit '' '')
       (first_occurrences (spec_tokens db (spec_collapse_spaces db (spec_collapse_runs P s))))"

text \<open>
  The heuristics in the words of the specification (section 4.1). The caseless script is the
  one of the language code \<^verbatim>\<open>ja\<close>. A text is all caps when it has an alphabetic character
  and all its alphabetic characters are uppercase. It is in title case when it has an
  alphabetic token and every whitespace-delimited alphabetic token has an uppercase first
  character and only lowercase characters after it, which a token of one character
  satisfies. It starts with a bullet when its first character is a bullet glyph. It is
  short when it has at most \<open>maxChars\<close> characters and, unless the script is caseless, at
  most \<open>maxWords\<close> whitespace-delimited tokens. Its uppercase ratio is the fraction of its
  alphabetic characters that are uppercase, and zero without alphabetic characters or case.
  It is a full sentence when the segmenter finds a sentence in it with more than two
  non-space tokens whose trimmed text ends in one of the six closing marks.
\<close>

definition caseless_script :: "pystr \<Rightarrow> bool" where
  "caseless_script lang = (lang = lit ''ja'')"

definition spec_isAllCaps :: "unicode_tables \<Rightarrow> pystr \<Rightarrow> pystr \<Rightarrow> bool" where
  "spec_isAllCaps db text lang =
     (\<not> caseless_script lang
      \<and> list_ex (uc_alpha db) text
      \<and> list_all (uc_upper db) (filter (uc_alpha db) text))"

definition spec_isTitleCase :: "unicode_tables \<Rightarrow> pystr \<Rightarrow> pystr \<Rightarrow> bool" where
  "spec_isTitleCase db text lang =
     (\<not> caseless_script lang
      \<and> list_ex (list_all (uc_alpha db)) (spec_tokens db text)
      \<and> list_all (\<lambda>w. uc_upper db (hd w) \<and> list_all (uc_lower db) (tl w))
            (filter (list_all (uc_alpha db)) (spec_tokens db text)))"

definition spec_startsWithBullet :: "pystr \<Rightarrow> bool" where
  "spec_startsWithBullet text = (text \<noteq> [] \<and> hd text \<in> bullets)"

definition spec_isShort :: "unicode_tables \<Rightarrow> pystr \<Rightarrow> pystr \<Rightarrow> nat \<Rightarrow> nat \<Rightarrow> bool" where
  "spec_isShort db text lang maxWords maxChars =
     (if caseless_script lang then length text \<le> maxChars
      else length text \<le> maxChars \<and> length (spec_tokens db text) \<le> maxWords)"

definition spec_uppercaseRatio :: "unicode_tables \<Rightarrow> pystr \<Rightarrow> pystr \<Rightarrow> rat" where
  "spec_uppercaseRatio db text lang =
     (if caseless_script lang then 0
      else if filter (uc_alpha db) text = [] then 0
      else of_nat (length (filter (uc_upper db) (filter (uc_alpha db) text)))
             / of_nat (length (filter (uc_alpha db) text)))"

definition spec_isFullSentence :: "unicode_tables \<Rightarrow> engine \<Rightarrow> pystr \<Rightarrow> bool" where
  "spec_isFullSentence db segment text =
     list_ex
       (\<lambda>sent. 2 < length (filter (\<lambda>t. \<not> is_space t) (sent_tokens sent))
               \<and> py_strip db (sent_text sent) \<noteq> []
               \<and> last (py_strip db (sent_text sent)) \<in> sentence_marks)
       (segment text)"

text \<open>
  The font level of section 4.4, the conditions of section 4.5 on the text of a span, and
  the outline they give: the entries, with the level, the text and the page minus one, of
  the spans that meet the conditions and have a level, in the order of the spans.
\<close>

definition spec_font_level :: "rat \<Rightarrow> pystr option" where
  "spec_font_level sz =
     map_option fst
       (find (\<lambda>(lv, s). \<bar>sz - s\<bar> < 0.1)
          [(lit ''H1'', 20.04), (lit ''H2'', 15.96), (lit ''H3'', 12.0)])"

definition spec_heading_text :: "unicode_tables \<Rightarrow> engine \<Rightarrow> pystr \<Rightarrow> pystr \<Rightarrow> bool" where
  "spec_heading_text db segment text lang =
     (py_strip db text \<noteq> []
      \<and> \<not> spec_startsWithBullet text
      \<and> spec_isShort db text lang 14 80
      \<and> \<not> spec_isFullSentence db segment text
      \<and> (spec_isAllCaps db text lang
         \<or> spec_isTitleCase db text lang
         \<or> 0.5 < spec_uppercaseRatio db text lang))"

definition spec_outline :: "unicode_tables \<Rightarrow> engine \<Rightarrow> block list \<Rightarrow> pystr \<Rightarrow> heading_entry list" where
  "spec_outline db segment blocks lang =
     List.map_filter
       (\<lambda>b. if spec_heading_text db segment (span_text b) lang
            then map_option
                   (\<lambda>lv. \<lparr>level = lv, entry_text = span_text b, entry_page = page b - 1\<rparr>)
                   (spec_font_level (span_size b))
            else None)
       blocks"

section \<open>Caseless scripts\<close>

text \<open>
  C7: for the language code \<^verbatim>\<open>ja\<close> the three case heuristics answer without looking at
  the text: \<open>is_all_caps\<close> and \<open>is_title_case\<close> are false and \<open>uppercase_ratio\<close> is zero,
  for every text and every classification of characters.
\<close>

theorem caseless_script_neutral:
  "is_all_caps db text (lit ''ja'') = False
   \<and> is_title_case db text (lit ''ja'') = False
   \<and> uppercase_ratio db text (lit ''ja'') = 0"
  by (simp add: is_all_caps_def is_title_case_def uppercase_ratio_def)

section \<open>Bullets\<close>

text \<open>
  C10: \<open>starts_with_bullet\<close> never raises. On the empty string the guard returns the
  string itself, which is falsy, and \<^verbatim>\<open>text[0]\<close> is not evaluated; on every other string
  the result is the boolean that tells whether the first character is one of the eight
  bullet glyphs.
\<close>

theorem starts_with_bullet_total:
  "starts_with_bullet [] = Inr (PyStr [])
   \<and> \<not> truthy (PyStr [])
   \<and> (text \<noteq> [] \<longrightarrow> starts_with_bullet text = Inr (PyBool (hd text \<in> bullets)))
   \<and> (\<exists>v. starts_with_bullet text = Inr v)"
  by (cases "text") (simp_all add: starts_with_bullet_def str_index_def)

theorem starts_with_bullet_total_witness:
  "lit ''- item'' \<noteq> []
   \<and> starts_with_bullet (lit ''- item'') = Inr (PyBool True)
   \<and> starts_with_bullet (lit ''item'') = Inr (PyBool False)"
  using starts_with_bullet_total [of "lit ''- item''"] starts_with_bullet_total [of "lit ''item''"]
  by (simp add: lit_def bullets_def)

section \<open>Strict title case\<close>

text \<open>
  C1: \<^verbatim>\<open>I Am Here\<close> is in title case in the words of the specification, its one-letter
  word included, and \<open>is_title_case\<close> returns \<^verbatim>\<open>False\<close> on it: the remainder of the word
  \<^verbatim>\<open>I\<close> is the empty string, and \<^verbatim>\<open>''.islower()\<close> is false. On \<^verbatim>\<open>I AM HERE\<close> both are
  false.
\<close>

theorem title_case_one_letter_word:
  "spec_isTitleCase ascii_tables (lit ''I Am Here'') (lit ''en'') = True
   \<and> is_title_case ascii_tables (lit ''I Am Here'') (lit ''en'') = False
   \<and> spec_isTitleCase ascii_tables (lit ''I AM HERE'') (lit ''en'') = False
   \<and> is_title_case ascii_tables (lit ''I AM HERE'') (lit ''en'') = False"
proof -
  have "spec_isTitleCase ascii_tables (lit ''I Am Here'') (lit ''en'') = True"
    by (simp add: spec_isTitleCase_def caseless_script_def spec_tokens_def ascii_tables_def
        lit_def)
  moreover have "is_title_case ascii_tables (lit ''I Am Here'') (lit ''en'') = False"
    by (simp add: is_title_case_def py_split_def str_isalpha_def str_isupper_def
        str_islower_def ascii_tables_def lit_def)
  moreover have "spec_isTitleCase ascii_tables (lit ''I AM HERE'') (lit ''en'') = False"
    by (simp add: spec_isTitleCase_def caseless_script_def spec_tokens_def ascii_tables_def
        lit_def)
  moreover have "is_title_case ascii_tables (lit ''I AM HERE'') (lit ''en'') = False"
    by (simp add: is_title_case_def py_split_def str_isalpha_def str_isupper_def
        str_islower_def ascii_tables_def lit_def)
  ultimately show ?thesis by simp
qed

section \<open>The font-to-level classifier\<close>

text \<open>
  C4: the table is \<^verbatim>\<open>H1: 20.04, H2: 15.96, H3: 12.0\<close>, and the level of a span is the
  first entry of the table, in the order H1, H2, H3, whose size is less than 0.1 away from
  the size of the span; there is no level when no entry is. A span of size 20.09 is H1, a
  span of size 20.2 has no level.
\<close>

theorem heading_level_first_match:
  "compute_font_stats blocks = [(lit ''H1'', 20.04), (lit ''H2'', 15.96), (lit ''H3'', 12.0)]
   \<and> heading_level block (compute_font_stats blocks)
       = Inr (map_option fst
                (find (\<lambda>(lv, s). \<bar>span_size block - s\<bar> < 0.1) (compute_font_stats blocks)))
   \<and> (span_size block = 20.09
        \<longrightarrow> heading_level block (compute_font_stats blocks) = Inr (Some (lit ''H1'')))
   \<and> (span_size block = 20.2
        \<longrightarrow> heading_level block (compute_font_stats blocks) = Inr None)"
  by (simp add: heading_level_def compute_font_stats_def dict_item_def lit_def)

theorem heading_level_first_match_witness:
  "heading_level \<lparr>span_text = lit ''Intro'', font = lit ''Arial'', span_size = 20.09, flags = 0,
       bbox = (0, 0, 10, 10), page = 1, origin = (0, 0)\<rparr> (compute_font_stats [])
     = Inr (Some (lit ''H1''))
   \<and> heading_level \<lparr>span_text = lit ''Intro'', font = lit ''Arial'', span_size = 20.2, flags = 0,
       bbox = (0, 0, 10, 10), page = 1, origin = (0, 0)\<rparr> (compute_font_stats [])
     = Inr None"
  using heading_level_first_match [of "[]" "\<lparr>span_text = lit ''Intro'', font = lit ''Arial'',
            span_size = 20.09, flags = 0, bbox = (0, 0, 10, 10), page = 1, origin = (0, 0)\<rparr>"]
    heading_level_first_match [of "[]" "\<lparr>span_text = lit ''Intro'', font = lit ''Arial'',
            span_size = 20.2, flags = 0, bbox = (0, 0, 10, 10), page = 1, origin = (0, 0)\<rparr>"]
  by (simp add: compute_font_stats_def)

section \<open>Language resolution\<close>






section \<open>The title detector\<close>

text \<open>
  C9: the language code is a parameter of \<open>detect_title\<close> that the function never reads:
  two calls on the same spans with two language codes return the same title.
\<close>

theorem detect_title_ignores_language:
  "detect_title db blocks l1 = detect_title db blocks l2"
  by (simp add: detect_title_def)

lemma py_max_eq_Max: "xs \<noteq> [] \<Longrightarrow> py_max xs = Inr (Max (set xs))"
proof (cases xs)
  case Nil
  then show "xs \<noteq> [] \<Longrightarrow> ?thesis" by simp
next
  case (Cons x ys)
  have "(\<lambda>v m. if m < v then v else m) = (max :: rat \<Rightarrow> rat \<Rightarrow> rat)"
    by (intro ext) (simp add: max_def)
  then show ?thesis
    using Cons Max.set_eq_fold [of x ys] by simp
qed

text \<open>Rules that evaluate the rounding on numerals.\<close>

lemma quantum_up_numeral:
  "quantum_up (numeral k) x q
   = (if x < 2 ^ 52 then quantum_up (pred_numeral k) (2 * x) (q / 2) else q)"
  by (simp add: numeral_eq_Suc)

lemma quantum_down_numeral:
  "quantum_down (numeral k) x q
   = (if 2 ^ 53 \<le> x then quantum_down (pred_numeral k) (x / 2) (2 * q) else q)"
  by (simp add: numeral_eq_Suc)

lemma floor_rat_numeral: "\<lfloor>numeral a / numeral b :: rat\<rfloor> = numeral a div numeral b"
  using floor_divide_of_int_eq [of "numeral a" "numeral b", where ?'a = rat] by simp

lemmas fl64_eval =
  fsub_def fl64_def quantum_def round_half_even_def Let_def
  quantum_up_numeral quantum_down_numeral floor_rat_numeral

lemma fsub_self: "fsub a a = 0"
  by (simp add: fsub_def fl64_def)

lemma fl64_examples:
  "fl64 (3 / 5) = 5404319552844595 / 9007199254740992"
  "fl64 (1 / 10) = 3602879701896397 / 36028797018963968"
  "fl64 (501 / 25) = 2820379266640773 / 140737488355328"
  by (simp_all add: fl64_eval)

text \<open>
  The doubles of \<^verbatim>\<open>0.1\<close> and \<^verbatim>\<open>0.6\<close> are less than a half apart, and their float
  difference is a half.
\<close>

lemma fsub_examples:
  "fsub (41 / 2) 24 = - (7 / 2)"
  "fsub 12 24 = - 12"
  "fsub (3602879701896397 / 36028797018963968) (5404319552844595 / 9007199254740992)
   = - (1 / 2)"
  "(3602879701896397 / 36028797018963968 :: rat) - 5404319552844595 / 9007199254740992
   = - (1 / 2) + 1 / 2 ^ 55"
  by (simp_all add: fl64_eval)

text \<open>
  C6: when no span of page 1 has a non-empty text the title is the empty string. Otherwise
  the title is made from the title band (the spans of page 1 with a text, less than 0.5
  away from their maximal size, by the float difference of the two sizes): the band is
  sorted by \<^verbatim>\<open>origin.y\<close>, the texts are joined with one space, the repetition cleaner is
  applied and the result is stripped. The sorted band is ascending in \<^verbatim>\<open>origin.y\<close>, and
  the spans of one height are those of the band in the order given (so it is a permutation
  of the band that keeps ties in order).
\<close>

theorem detect_title_pipeline:
  "(filter (\<lambda>b. page b = 1 \<and> span_text b \<noteq> []) blocks = []
      \<longrightarrow> detect_title db blocks lang_code = Inr [])
   \<and> (filter (\<lambda>b. page b = 1 \<and> span_text b \<noteq> []) blocks \<noteq> []
      \<longrightarrow> detect_title db blocks lang_code
          = Inr (py_strip db (clean_repetitions db (py_join (lit '' '')
                   (map span_text (py_sorted (\<lambda>b. snd (origin b)) (title_band blocks)))))))
   \<and> sorted (map (\<lambda>b. snd (origin b)) (py_sorted (\<lambda>b. snd (origin b)) (title_band blocks)))
   \<and> (\<forall>y. filter (\<lambda>b. snd (origin b) = y) (py_sorted (\<lambda>b. snd (origin b)) (title_band blocks))
          = filter (\<lambda>b. snd (origin b) = y) (title_band blocks))"
proof -
  let ?fp = "filter (\<lambda>b. page b = 1 \<and> span_text b \<noteq> []) blocks"
  have a: "detect_title db blocks lang_code = Inr []" if "?fp = []"
    using that by (simp add: detect_title_def)
  have b: "detect_title db blocks lang_code
          = Inr (py_strip db (clean_repetitions db (py_join (lit '' '')
                   (map span_text (py_sorted (\<lambda>b. snd (origin b)) (title_band blocks))))))"
    if ne: "?fp \<noteq> []"
  proof -
    from ne have "map span_size ?fp \<noteq> []" by simp
    then have "py_max (map span_size ?fp) = Inr (Max (set (map span_size ?fp)))"
      by (rule py_max_eq_Max)
    with ne show ?thesis
      by (simp add: detect_title_def title_band_def Let_def)
  qed
  have c: "sorted (map (\<lambda>b. snd (origin b)) (py_sorted (\<lambda>b. snd (origin b)) (title_band blocks)))"
    by (simp add: py_sorted_def)
  have d: "filter (\<lambda>b. snd (origin b) = y) (py_sorted (\<lambda>b. snd (origin b)) (title_band blocks))
          = filter (\<lambda>b. snd (origin b) = y) (title_band blocks)" for y
    by (simp add: py_sorted_def sort_key_stable)
  from a b c d show ?thesis by blast
qed

theorem detect_title_pipeline_witness:
  "filter (\<lambda>b. page b = 1 \<and> span_text b \<noteq> []) example_spans \<noteq> []
   \<and> detect_title ascii_tables example_spans (lit ''en'') = Inr (lit ''TITLE OF PAPER'')
   \<and> filter (\<lambda>b. page b = 1 \<and> span_text b \<noteq> []) boundary_spans \<noteq> []
   \<and> detect_title ascii_tables boundary_spans (lit ''en'') = Inr (lit ''Big'')
   \<and> detect_title ascii_tables [] (lit ''en'') = Inr []"
proof -
  have ne: "filter (\<lambda>b. page b = 1 \<and> span_text b \<noteq> []) example_spans \<noteq> []"
    by (simp add: example_spans_def lit_def)
  have band: "title_band example_spans = take 2 example_spans"
    by (simp add: title_band_def example_spans_def lit_def fsub_self fsub_examples)
  have "detect_title ascii_tables example_spans (lit ''en'')
        = Inr (py_strip ascii_tables (clean_repetitions ascii_tables (py_join (lit '' '')
                 (map span_text (py_sorted (\<lambda>b. snd (origin b)) (title_band example_spans))))))"
    using detect_title_pipeline [of example_spans ascii_tables "lit ''en''"] ne by blast
  also have "\<dots> = Inr (lit ''TITLE OF PAPER'')"
    unfolding band
    by (simp add: example_spans_def py_sorted_def clean_repetitions_def py_split_def
        py_strip_def ascii_tables_def is_word_def lit_def)
  finally have t: "detect_title ascii_tables example_spans (lit ''en'') = Inr (lit ''TITLE OF PAPER'')" .
  have ne': "filter (\<lambda>b. page b = 1 \<and> span_text b \<noteq> []) boundary_spans \<noteq> []"
    by (simp add: boundary_spans_def lit_def)
  have band': "title_band boundary_spans = take 1 boundary_spans"
    by (simp add: title_band_def boundary_spans_def lit_def fsub_self fl64_examples
        fsub_examples)
  have "detect_title ascii_tables boundary_spans (lit ''en'')
        = Inr (py_strip ascii_tables (clean_repetitions ascii_tables (py_join (lit '' '')
                 (map span_text (py_sorted (\<lambda>b. snd (origin b)) (title_band boundary_spans))))))"
    using detect_title_pipeline [of boundary_spans ascii_tables "lit ''en''"] ne' by blast
  also have "\<dots> = Inr (lit ''Big'')"
    unfolding band'
    by (simp add: boundary_spans_def py_sorted_def clean_repetitions_def py_split_def
        py_strip_def ascii_tables_def is_word_def lit_def)
  finally have t': "detect_title ascii_tables boundary_spans (lit ''en'') = Inr (lit ''Big'')" .
  have e: "detect_title ascii_tables [] (lit ''en'') = Inr []"
    using detect_title_pipeline [of "[]" ascii_tables "lit ''en''"] by simp
  from ne t ne' t' e show ?thesis by simp
qed

section \<open>The heading candidates\<close>

text \<open>
  C2: the span \<^verbatim>\<open>A Brief History\<close> of size 20.04 on page 1 meets the conditions of the
  specification, by the title case of its text, and has the level H1: the outline of the
  specification has its entry, with the page 0. \<open>extract_outline\<close> returns the empty
  outline, since \<open>is_title_case\<close> is false of a text with a one-letter word. Without that
  word the span is emitted as the specification says. The engine of the specification's
  side is the one that \<open>get_nlp\<close> returns.
\<close>

theorem extract_outline_one_letter_word:
  "spec_outline ascii_tables example_engine [history_span] (lit ''en'')
     = [\<lparr>level = lit ''H1'', entry_text = lit ''A Brief History'', entry_page = 0\<rparr>]
   \<and> extract_outline ascii_tables example_load [history_span] (lit ''en'') = Inr []
   \<and> spec_outline ascii_tables example_engine [brief_span] (lit ''en'')
     = [\<lparr>level = lit ''H1'', entry_text = lit ''Brief History'', entry_page = 0\<rparr>]
   \<and> extract_outline ascii_tables example_load [brief_span] (lit ''en'')
     = Inr [\<lparr>level = lit ''H1'', entry_text = lit ''Brief History'', entry_page = 0\<rparr>]
   \<and> get_nlp example_load (lit ''en'') = Inr example_engine"
proof -
  have e: "get_nlp example_load (lit ''en'') = Inr example_engine"
    by (simp add: get_nlp_def example_load_def LANG_MODELS_def dict_item_def lit_def)
  have s1: "spec_outline ascii_tables example_engine [history_span] (lit ''en'')
            = [\<lparr>level = lit ''H1'', entry_text = lit ''A Brief History'', entry_page = 0\<rparr>]"
    by (simp add: spec_outline_def List.map_filter_simps spec_heading_text_def
        spec_font_level_def spec_startsWithBullet_def spec_isShort_def spec_isFullSentence_def
        spec_isAllCaps_def spec_isTitleCase_def spec_uppercaseRatio_def caseless_script_def
        spec_tokens_def history_span_def example_engine_def py_split_def py_strip_def
        sentence_marks_def bullets_def ascii_tables_def lit_def)
  have s2: "spec_outline ascii_tables example_engine [brief_span] (lit ''en'')
            = [\<lparr>level = lit ''H1'', entry_text = lit ''Brief History'', entry_page = 0\<rparr>]"
    by (simp add: spec_outline_def List.map_filter_simps spec_heading_text_def
        spec_font_level_def spec_startsWithBullet_def spec_isShort_def spec_isFullSentence_def
        spec_isAllCaps_def spec_isTitleCase_def spec_uppercaseRatio_def caseless_script_def
        spec_tokens_def brief_span_def example_engine_def py_split_def py_strip_def
        sentence_marks_def bullets_def ascii_tables_def lit_def)
  have c1: "extract_outline ascii_tables example_load [history_span] (lit ''en'') = Inr []"
    by (simp add: extract_outline_def history_span_def heading_level_def compute_font_stats_def
        dict_item_def is_heading_candidate_def starts_with_bullet_def str_index_def is_short_def
        is_full_sentence_def get_nlp_def example_load_def LANG_MODELS_def example_engine_def
        search_final_mark_def sentence_marks_def bullets_def is_all_caps_def is_title_case_def
        uppercase_ratio_def str_isalpha_def str_isupper_def str_islower_def py_split_def
        py_strip_def ascii_tables_def lit_def)
  have c2: "extract_outline ascii_tables example_load [brief_span] (lit ''en'')
            = Inr [\<lparr>level = lit ''H1'', entry_text = lit ''Brief History'', entry_page = 0\<rparr>]"
    by (simp add: extract_outline_def brief_span_def heading_level_def compute_font_stats_def
        dict_item_def is_heading_candidate_def starts_with_bullet_def str_index_def is_short_def
        is_full_sentence_def get_nlp_def example_load_def LANG_MODELS_def example_engine_def
        search_final_mark_def sentence_marks_def bullets_def is_all_caps_def is_title_case_def
        uppercase_ratio_def str_isalpha_def str_isupper_def str_islower_def py_split_def
        py_strip_def ascii_tables_def lit_def)
  from s1 c1 s2 c2 e show ?thesis by simp
qed

section \<open>The repetition cleaner\<close>

lemma no_triple_tl: "no_triple P (a # r) \<Longrightarrow> no_triple P r"
  by (cases r; cases "tl r") auto

lemma no_triple_append_right: "no_triple P (x @ y) \<Longrightarrow> no_triple P y"
  by (induction x) (auto dest: no_triple_tl)

lemma no_triple_append_left: "no_triple P (x @ y) \<Longrightarrow> no_triple P x"
  by (induction P x rule: no_triple.induct) auto

lemma no_triple_Cons: "no_triple P y \<Longrightarrow> y = [] \<or> hd y \<noteq> a \<Longrightarrow> no_triple P (a # y)"
  by (cases y; cases "tl y") auto

lemma no_triple_append:
  "no_triple P x \<Longrightarrow> no_triple P y \<Longrightarrow> x = [] \<or> y = [] \<or> last x \<noteq> hd y \<Longrightarrow> no_triple P (x @ y)"
proof (induction P x rule: no_triple.induct)
  case (1 P a b c r)
  then show ?case by auto
next
  case (2 P a b)
  then show ?case
    by (cases y) (auto intro: no_triple_Cons)
next
  case (3 P a)
  then show ?case by (auto intro: no_triple_Cons)
next
  case (4 P)
  then show ?case by simp
qed

lemma sub_repeated_Nil_iff [simp]: "sub_repeated db s = [] \<longleftrightarrow> s = []"
  by (cases s) auto

lemma hd_sub_repeated [simp]: "hd (sub_repeated db s) = hd s"
  by (cases s) auto

lemma takeWhile_sub_repeated_other:
  "s = [] \<or> hd s \<noteq> c \<Longrightarrow> takeWhile (\<lambda>x. x = c) (sub_repeated db s) = []"
  by (cases s) auto

lemma dropWhile_eq_head: "dropWhile (\<lambda>x. x = d) cs = [] \<or> hd (dropWhile (\<lambda>x. x = d) cs) \<noteq> d"
  using hd_dropWhile [of "\<lambda>x. x = d" cs] by blast

lemma sub_repeated_leading:
  "length (takeWhile (\<lambda>x. x = c) (sub_repeated db s)) \<le> length (takeWhile (\<lambda>x. x = c) s)"
proof (induction db s rule: sub_repeated.induct)
  case (1 db)
  then show ?case by simp
next
  case (2 db d cs)
  show ?case
  proof (cases "is_word db d \<and> 2 \<le> length (takeWhile (\<lambda>x. x = d) cs)")
    case True
    have rest: "takeWhile (\<lambda>x. x = d) (sub_repeated db (dropWhile (\<lambda>x. x = d) cs)) = []"
      by (rule takeWhile_sub_repeated_other) (rule dropWhile_eq_head)
    show ?thesis
    proof (cases "d = c")
      case eq: True
      from rest have "takeWhile (\<lambda>x. x = c) (sub_repeated db (dropWhile (\<lambda>x. x = c) cs)) = []"
        unfolding eq .
      with True eq show ?thesis by simp
    next
      case False
      with True show ?thesis by simp
    qed
  next
    case False
    with 2 show ?thesis by auto
  qed
qed

lemma no_triple_sub_repeated: "no_triple (is_word db) (sub_repeated db s)"
proof (induction db s rule: sub_repeated.induct)
  case (1 db)
  then show ?case by simp
next
  case (2 db c cs)
  show ?case
  proof (cases "is_word db c \<and> 2 \<le> length (takeWhile (\<lambda>x. x = c) cs)")
    case True
    let ?rest = "sub_repeated db (dropWhile (\<lambda>x. x = c) cs)"
    from True 2 have nt: "no_triple (is_word db) ?rest" by simp
    have "?rest = [] \<or> hd ?rest \<noteq> c"
      using dropWhile_eq_head [of c cs] by auto
    with nt have "no_triple (is_word db) (c # ?rest)"
      by (rule no_triple_Cons)
    with True show ?thesis by simp
  next
    case False
    with 2 have nt: "no_triple (is_word db) (sub_repeated db cs)" by simp
    have lead: "length (takeWhile (\<lambda>x. x = c) (sub_repeated db cs)) \<le> length (takeWhile (\<lambda>x. x = c) cs)"
      by (rule sub_repeated_leading)
    have "no_triple (is_word db) (c # sub_repeated db cs)"
    proof (cases "sub_repeated db cs")
      case Nil
      then show ?thesis by simp
    next
      case (Cons a r)
      show ?thesis
      proof (cases r)
        case Nil
        with Cons show ?thesis by simp
      next
        case (Cons b r')
        with \<open>sub_repeated db cs = a # r\<close> lead False nt show ?thesis
          by (auto split: if_splits)
      qed
    qed
    with False show ?thesis by auto
  qed
qed

lemma sub_repeated_fixed: "no_triple (is_word db) s \<Longrightarrow> sub_repeated db s = s"
proof (induction db s rule: sub_repeated.induct)
  case (1 db)
  then show ?case by simp
next
  case (2 db c cs)
  have no: "\<not> (is_word db c \<and> 2 \<le> length (takeWhile (\<lambda>x. x = c) cs))"
  proof
    assume m: "is_word db c \<and> 2 \<le> length (takeWhile (\<lambda>x. x = c) cs)"
    then obtain a b r where cs: "cs = a # b # r"
      by (cases cs; cases "tl cs") (auto split: if_splits)
    with m have "a = c \<and> b = c"
      by (auto split: if_splits)
    with cs m "2.prems" show False by simp
  qed
  from "2.prems" have "no_triple (is_word db) cs"
    by (rule no_triple_tl)
  with 2 no show ?case by auto
qed

lemma split_scan_tokens:
  "\<forall>c \<in> set cur. \<not> uc_space db c \<Longrightarrow> t \<in> set (split_scan db cur s)
   \<Longrightarrow> t \<noteq> [] \<and> (\<forall>c \<in> set t. \<not> uc_space db c)"
proof (induction s arbitrary: cur)
  case Nil
  then show ?case by (auto split: if_splits)
next
  case (Cons a s)
  show ?case
  proof (cases "uc_space db a")
    case True
    with Cons.prems(2) have "(t = cur \<and> cur \<noteq> []) \<or> t \<in> set (split_scan db [] s)"
      by (auto split: if_splits)
    then show ?thesis
    proof
      assume "t = cur \<and> cur \<noteq> []"
      with Cons.prems(1) show ?thesis by simp
    next
      assume "t \<in> set (split_scan db [] s)"
      with Cons.IH [of "[]"] show ?thesis by simp
    qed
  next
    case False
    with Cons.prems have "t \<in> set (split_scan db (cur @ [a]) s)"
      and "\<forall>c \<in> set (cur @ [a]). \<not> uc_space db c"
      by simp_all
    with Cons.IH [of "cur @ [a]"] show ?thesis by blast
  qed
qed

lemma split_scan_no_triple:
  "no_triple P (cur @ s) \<Longrightarrow> t \<in> set (split_scan db cur s) \<Longrightarrow> no_triple P t"
proof (induction s arbitrary: cur)
  case Nil
  then show ?case by (auto split: if_splits)
next
  case (Cons c cs)
  from Cons.prems(1) have l: "no_triple P cur" and r: "no_triple P cs"
    by (auto dest: no_triple_append_left no_triple_append_right no_triple_tl)
  show ?case
  proof (cases "uc_space db c")
    case True
    with Cons.prems(2) have "t = cur \<or> t \<in> set (split_scan db [] cs)"
      by (auto split: if_splits)
    with l r Cons.IH [of "[]"] show ?thesis by auto
  next
    case False
    with Cons.prems Cons.IH [of "cur @ [c]"] show ?thesis by simp
  qed
qed

lemma split_scan_append_token:
  "\<forall>c \<in> set t. \<not> uc_space db c \<Longrightarrow> split_scan db cur (t @ r) = split_scan db (cur @ t) r"
  by (induction t arbitrary: cur) auto

lemma split_scan_join:
  assumes "uc_space db 32"
  shows "\<forall>t \<in> set ts. t \<noteq> [] \<and> (\<forall>c \<in> set t. \<not> uc_space db c)
         \<Longrightarrow> split_scan db [] (py_join [32] ts) = ts"
proof (induction "[32::nat]" ts rule: py_join.induct)
  case 1
  then show ?case by simp
next
  case (2 x)
  then have "split_scan db [] (x @ []) = split_scan db ([] @ x) []"
    by (intro split_scan_append_token) simp
  with 2 show ?case by simp
next
  case (3 x y ys)
  then have "split_scan db [] (x @ ([32] @ py_join [32] (y # ys)))
             = split_scan db ([] @ x) ([32] @ py_join [32] (y # ys))"
    by (intro split_scan_append_token) simp
  with 3 assms show ?case by simp
qed

lemma split_scan_dropWhile:
  "split_scan db [] (dropWhile (uc_space db) s) = split_scan db [] s"
  by (induction s) auto

lemma split_scan_sub_spaces:
  "uc_space db 32 \<Longrightarrow> split_scan db cur (sub_spaces db s) = split_scan db cur s"
proof (induction db s arbitrary: cur rule: sub_spaces.induct)
  case (1 db)
  show ?case by simp
next
  case (2 db c cs)
  show ?case
  proof (cases "uc_space db c \<and> 1 \<le> length (takeWhile (uc_space db) cs)")
    case True
    with 2 have "split_scan db [] (sub_spaces db (dropWhile (uc_space db) cs))
                 = split_scan db [] (dropWhile (uc_space db) cs)"
      by blast
    with True "2.prems" show ?thesis
      by (simp add: split_scan_dropWhile)
  next
    case False
    with 2 show ?thesis by auto
  qed
qed

lemma sub_spaces_append_token:
  "\<forall>c \<in> set t. \<not> uc_space db c \<Longrightarrow> sub_spaces db (t @ r) = t @ sub_spaces db r"
  by (induction t) auto

lemma hd_py_join: "ts \<noteq> [] \<Longrightarrow> hd ts \<noteq> [] \<Longrightarrow> hd (py_join sep ts) = hd (hd ts)"
  by (induction sep ts rule: py_join.induct) auto

lemma py_join_Nil_iff: "\<forall>t \<in> set ts. t \<noteq> [] \<Longrightarrow> py_join sep ts = [] \<longleftrightarrow> ts = []"
  by (induction sep ts rule: py_join.induct) auto

lemma sub_spaces_join:
  "\<forall>t \<in> set ts. t \<noteq> [] \<and> (\<forall>c \<in> set t. \<not> uc_space db c)
   \<Longrightarrow> sub_spaces db (py_join [32] ts) = py_join [32] ts"
proof (induction "[32::nat]" ts rule: py_join.induct)
  case 1
  then show ?case by simp
next
  case (2 x)
  then show ?case
    using sub_spaces_append_token [of x db "[]"] by simp
next
  case (3 x y ys)
  let ?rest = "py_join [32] (y # ys)"
  from 3 have IH: "sub_spaces db ?rest = ?rest" by simp
  from 3 have y: "y \<noteq> []" "\<not> uc_space db (hd y)" by auto
  then have "hd ?rest = hd y" by (simp add: hd_py_join)
  moreover from y have "?rest \<noteq> []" by (cases ys) auto
  ultimately have "takeWhile (uc_space db) ?rest = []"
    using y by (cases ?rest) auto
  then have "sub_spaces db (32 # ?rest) = 32 # sub_spaces db ?rest"
    by simp
  moreover from 3 have "sub_spaces db (x @ (32 # ?rest)) = x @ sub_spaces db (32 # ?rest)"
    by (intro sub_spaces_append_token) simp
  ultimately show ?case using IH by simp
qed

lemma no_triple_join:
  assumes "uc_space db 32"
  shows "\<forall>t \<in> set ts. t \<noteq> [] \<and> (\<forall>c \<in> set t. \<not> uc_space db c) \<and> no_triple P t
         \<Longrightarrow> no_triple P (py_join [32] ts)"
proof (induction "[32::nat]" ts rule: py_join.induct)
  case 1
  then show ?case by simp
next
  case (2 x)
  then show ?case by simp
next
  case (3 x y ys)
  let ?rest = "py_join [32] (y # ys)"
  from 3 have IH: "no_triple P ?rest" by simp
  from 3 have y: "y \<noteq> []" "\<not> uc_space db (hd y)" by auto
  then have "hd ?rest = hd y" by (simp add: hd_py_join)
  with y assms have "hd ?rest \<noteq> 32" by auto
  with IH have r: "no_triple P (32 # ?rest)"
    by (intro no_triple_Cons) auto
  from 3 have x: "x \<noteq> []" "\<not> uc_space db (last x)" "no_triple P x" by auto
  with assms have "last x \<noteq> 32" by auto
  with x r have "no_triple P (x @ (32 # ?rest))"
    by (intro no_triple_append) auto
  then show ?case by simp
qed

lemma set_dedup_loop: "set (dedup_loop ws seen res) \<subseteq> set res \<union> set ws"
  by (induction ws seen res rule: dedup_loop.induct) auto

lemma distinct_dedup_loop:
  "distinct res \<Longrightarrow> set res \<subseteq> seen \<Longrightarrow> distinct (dedup_loop ws seen res)"
  by (induction ws seen res rule: dedup_loop.induct) auto

lemma dedup_loop_distinct:
  "distinct ws \<Longrightarrow> set ws \<inter> seen = {} \<Longrightarrow> dedup_loop ws seen res = res @ ws"
  by (induction ws seen res rule: dedup_loop.induct) auto

text \<open>
  C5: the repetition cleaner is idempotent: applied to its own output it returns it
  unchanged, for every string, when the space character is whitespace.
\<close>

theorem clean_repetitions_idempotent:
  assumes "uc_space db 32"
  shows "clean_repetitions db (clean_repetitions db s) = clean_repetitions db s"
proof -
  let ?s1 = "sub_repeated db s"
  let ?ws = "py_split db (sub_spaces db ?s1)"
  let ?ts = "dedup_loop ?ws {} []"
  let ?out = "py_join [32] ?ts"
  have sp: "lit '' '' = [32]"
    by (simp add: lit_def)
  have out: "clean_repetitions db s = ?out"
    by (simp add: clean_repetitions_def sp)
  have ws: "?ws = split_scan db [] ?s1"
    using assms by (simp add: py_split_def split_scan_sub_spaces)
  have sub: "set ?ts \<subseteq> set ?ws"
    using set_dedup_loop [of ?ws "{}" "[]"] by simp
  have tok: "t \<noteq> [] \<and> (\<forall>c \<in> set t. \<not> uc_space db c)" if "t \<in> set ?ts" for t
    using that sub split_scan_tokens [of "[]" db t ?s1] unfolding ws by auto
  have nt: "no_triple (is_word db) t" if "t \<in> set ?ts" for t
    using that sub split_scan_no_triple [of "is_word db" "[]" ?s1 t db]
      no_triple_sub_repeated [of db s] unfolding ws by auto
  have dist: "distinct ?ts"
    by (rule distinct_dedup_loop) simp_all
  have "no_triple (is_word db) ?out"
    using no_triple_join [OF assms, of ?ts "is_word db"] tok nt by blast
  then have 1: "sub_repeated db ?out = ?out"
    by (rule sub_repeated_fixed)
  have 2: "sub_spaces db ?out = ?out"
    using sub_spaces_join [of ?ts db] tok by blast
  have "split_scan db [] ?out = ?ts"
    using split_scan_join [OF assms, of ?ts] tok by blast
  then have 3: "py_split db ?out = ?ts"
    by (simp only: py_split_def [of db ?out])
  have 4: "dedup_loop ?ts {} [] = ?ts"
    using dedup_loop_distinct [OF dist, of "{}" "[]"] by simp
  have "clean_repetitions db ?out = ?out"
    unfolding clean_repetitions_def Let_def sp 1 2 3 4 ..
  then show ?thesis
    unfolding out .
qed

theorem clean_repetitions_idempotent_witness:
  "uc_space ascii_tables 32
   \<and> clean_repetitions ascii_tables (lit ''Reeeequest  for  Proposal  Proposal'')
       = lit ''Request for Proposal''
   \<and> clean_repetitions ascii_tables (lit ''Request for Proposal'') = lit ''Request for Proposal''"
proof -
  have sp: "uc_space ascii_tables 32"
    by (simp add: ascii_tables_def)
  have val: "clean_repetitions ascii_tables (lit ''Reeeequest  for  Proposal  Proposal'')
             = lit ''Request for Proposal''"
    by (simp add: clean_repetitions_def py_split_def ascii_tables_def is_word_def lit_def)
  from clean_repetitions_idempotent [OF sp, of "lit ''Reeeequest  for  Proposal  Proposal''"]
  have "clean_repetitions ascii_tables (lit ''Request for Proposal'') = lit ''Request for Proposal''"
    unfolding val .
  with sp val show ?thesis by simp
qed

section \<open>The repetition cleaner and its reference transform\<close>

lemma runs_step:
  "\<not> (P c \<and> 2 \<le> length (takeWhile (\<lambda>x. x = c) cs))
   \<Longrightarrow> spec_collapse_runs P cs
       = takeWhile (\<lambda>x. x = c) cs @ spec_collapse_runs P (dropWhile (\<lambda>x. x = c) cs)"
  by (cases cs) (auto simp: spec_collapse_runs_def)

lemma sub_repeated_spec: "sub_repeated db s = spec_collapse_runs (is_word db) s"
proof (induction db s rule: sub_repeated.induct)
  case (1 db)
  show ?case by (simp add: spec_collapse_runs_def)
next
  case (2 db c cs)
  show ?case
  proof (cases "is_word db c \<and> 2 \<le> length (takeWhile (\<lambda>x. x = c) cs)")
    case True
    with 2 show ?thesis
      by (simp add: spec_collapse_runs_def)
  next
    case False
    with 2 have "sub_repeated db (c # cs) = c # spec_collapse_runs (is_word db) cs"
      by auto
    also have "\<dots> = (c # takeWhile (\<lambda>x. x = c) cs)
                     @ spec_collapse_runs (is_word db) (dropWhile (\<lambda>x. x = c) cs)"
      using runs_step [of "is_word db" c cs] False by simp
    also have "\<dots> = spec_collapse_runs (is_word db) (c # cs)"
      using False by (auto simp: spec_collapse_runs_def)
    finally show ?thesis .
  qed
qed


lemma space_class_True: "uc_space db c \<Longrightarrow> (\<lambda>y. uc_space db y = uc_space db c) = uc_space db"
  by (intro ext) simp

lemma space_class_False:
  "\<not> uc_space db c \<Longrightarrow> (\<lambda>y. uc_space db y = uc_space db c) = (\<lambda>y. \<not> uc_space db y)"
  by (intro ext) simp

lemma groups_space:
  "uc_space db c \<Longrightarrow> groups (uc_space db) (c # cs)
     = (c # takeWhile (uc_space db) cs) # groups (uc_space db) (dropWhile (uc_space db) cs)"
  by (simp add: space_class_True)

lemma groups_nonspace:
  "\<not> uc_space db c \<Longrightarrow> groups (uc_space db) (c # cs)
     = (c # takeWhile (\<lambda>y. \<not> uc_space db y) cs)
       # groups (uc_space db) (dropWhile (\<lambda>y. \<not> uc_space db y) cs)"
  by (simp add: space_class_False)

lemma spaces_step:
  "spec_collapse_spaces db cs
   = takeWhile (\<lambda>y. \<not> uc_space db y) cs
     @ spec_collapse_spaces db (dropWhile (\<lambda>y. \<not> uc_space db y) cs)"
proof (cases cs)
  case Nil
  then show ?thesis by simp
next
  case (Cons d ds)
  show ?thesis
  proof (cases "uc_space db d")
    case True
    with Cons show ?thesis by simp
  next
    case False
    with Cons show ?thesis
      by (simp add: spec_collapse_spaces_def groups_nonspace del: groups.simps)
  qed
qed

lemma sub_spaces_spec: "sub_spaces db s = spec_collapse_spaces db s"
proof (induction db s rule: sub_spaces.induct)
  case (1 db)
  show ?case by (simp add: spec_collapse_spaces_def)
next
  case (2 db c cs)
  show ?case
  proof (cases "uc_space db c")
    case sp: True
    show ?thesis
    proof (cases "1 \<le> length (takeWhile (uc_space db) cs)")
      case True
      with sp 2 show ?thesis
        by (simp add: spec_collapse_spaces_def groups_space del: groups.simps)
    next
      case False
      then have tw: "takeWhile (uc_space db) cs = []"
        by (cases "takeWhile (uc_space db) cs") auto
      then have dw: "dropWhile (uc_space db) cs = cs"
        by (metis takeWhile_dropWhile_id append_Nil)
      from False sp 2 have "sub_spaces db (c # cs) = c # spec_collapse_spaces db cs"
        by auto
      also have "\<dots> = spec_collapse_spaces db (c # cs)"
        using sp tw dw by (simp add: spec_collapse_spaces_def groups_space del: groups.simps)
      finally show ?thesis .
    qed
  next
    case False
    with 2 have "sub_spaces db (c # cs) = c # spec_collapse_spaces db cs"
      by auto
    also have "\<dots> = (c # takeWhile (\<lambda>y. \<not> uc_space db y) cs)
                     @ spec_collapse_spaces db (dropWhile (\<lambda>y. \<not> uc_space db y) cs)"
      using spaces_step [of db cs] by simp
    also have "\<dots> = spec_collapse_spaces db (c # cs)"
      using False by (simp add: spec_collapse_spaces_def groups_nonspace del: groups.simps)
    finally show ?thesis .
  qed
qed

lemma spec_tokens_space:
  "uc_space db c \<Longrightarrow> spec_tokens db (c # s) = spec_tokens db (dropWhile (uc_space db) s)"
  by (simp add: spec_tokens_def groups_space del: groups.simps)

lemma spec_tokens_dropWhile: "spec_tokens db (dropWhile (uc_space db) s) = spec_tokens db s"
  by (cases s) (simp_all add: spec_tokens_space)

lemma spec_tokens_step:
  "spec_tokens db s
   = (if takeWhile (\<lambda>y. \<not> uc_space db y) s = [] then []
      else [takeWhile (\<lambda>y. \<not> uc_space db y) s])
     @ spec_tokens db (dropWhile (\<lambda>y. \<not> uc_space db y) s)"
proof (cases s)
  case Nil
  then show ?thesis by simp
next
  case (Cons d ds)
  show ?thesis
  proof (cases "uc_space db d")
    case True
    with Cons show ?thesis by simp
  next
    case False
    with Cons show ?thesis
      by (simp add: spec_tokens_def groups_nonspace del: groups.simps)
  qed
qed

lemma split_scan_spec:
  "split_scan db cur s
   = (if cur @ takeWhile (\<lambda>y. \<not> uc_space db y) s = [] then []
      else [cur @ takeWhile (\<lambda>y. \<not> uc_space db y) s])
     @ spec_tokens db (dropWhile (\<lambda>y. \<not> uc_space db y) s)"
proof (induction s arbitrary: cur)
  case Nil
  show ?case by (simp add: spec_tokens_def)
next
  case (Cons c cs)
  show ?case
  proof (cases "uc_space db c")
    case True
    have "split_scan db [] cs = spec_tokens db cs"
      using Cons.IH [of "[]"] spec_tokens_step [of db cs] by simp
    also have "\<dots> = spec_tokens db (c # cs)"
      using True by (simp add: spec_tokens_space spec_tokens_dropWhile)
    finally show ?thesis using True by simp
  next
    case False
    with Cons.IH [of "cur @ [c]"] show ?thesis by simp
  qed
qed

lemma py_split_spec: "py_split db s = spec_tokens db s"
  using split_scan_spec [of db "[]" s] spec_tokens_step [of db s]
  by (simp add: py_split_def)

lemma filter_upt_Suc:
  "filter Q [0..<Suc n] = (if Q 0 then [0] else []) @ map Suc (filter (\<lambda>i. Q (Suc i)) [0..<n])"
proof -
  have "[0..<Suc n] = 0 # map Suc [0..<n]"
    by (simp add: upt_conv_Cons map_Suc_upt del: upt_Suc)
  then show ?thesis
    by (simp add: filter_map o_def del: upt_Suc)
qed

lemma dedup_loop_spec:
  "dedup_loop ws seen res
   = res @ map (\<lambda>i. ws ! i) (filter (\<lambda>i. ws ! i \<notin> seen \<union> set (take i ws)) [0..<length ws])"
proof (induction ws arbitrary: seen res)
  case Nil
  show ?case by simp
next
  case (Cons w ws)
  have step: "map (\<lambda>i. (w # ws) ! i)
                (filter (\<lambda>i. (w # ws) ! i \<notin> seen \<union> set (take i (w # ws))) [0..<length (w # ws)])
        = (if w \<notin> seen then [w] else [])
          @ map (\<lambda>i. ws ! i)
              (filter (\<lambda>i. ws ! i \<notin> insert w seen \<union> set (take i ws)) [0..<length ws])"
    by (simp add: filter_upt_Suc o_def conj_ac del: upt_Suc)
  show ?case
  proof (cases "w \<in> seen")
    case True
    then have "insert w seen = seen" by auto
    with True step Cons.IH [of seen res] show ?thesis by simp
  next
    case False
    with step Cons.IH [of "insert w seen" "res @ [w]"] show ?thesis by simp
  qed
qed

lemma dedup_loop_first_occurrences: "dedup_loop ws {} [] = first_occurrences ws"
  by (simp add: dedup_loop_spec first_occurrences_def)

lemma clean_repetitions_spec:
  "clean_repetitions db s = spec_clean_repetitions (is_word db) db s"
  by (simp add: clean_repetitions_def spec_clean_repetitions_def sub_repeated_spec
      sub_spaces_spec py_split_spec dedup_loop_first_occurrences)

text \<open>
  The pattern \<^verbatim>\<open>(\w)\1{2,}\<close> matches runs of word characters only: a run of dashes stays,
  where the reference transform with runs of any character makes one dash of it.
\<close>

theorem clean_repetitions_counterexample:
  "clean_repetitions ascii_tables (lit ''A --- B'') = lit ''A --- B''
   \<and> spec_clean_repetitions (\<lambda>c. True) ascii_tables (lit ''A --- B'') = lit ''A - B''"
proof -
  have "clean_repetitions ascii_tables (lit ''A --- B'') = lit ''A --- B''"
    by (simp add: clean_repetitions_def py_split_def ascii_tables_def is_word_def lit_def)
  moreover have "spec_clean_repetitions (\<lambda>c. True) ascii_tables (lit ''A --- B'') = lit ''A - B''"
    by (simp add: spec_clean_repetitions_def first_occurrences_def spec_tokens_def
        spec_collapse_spaces_def spec_collapse_runs_def ascii_tables_def lit_def upt_rec)
  ultimately show ?thesis by simp
qed

text \<open>
  C3, amended: \<open>clean_repetitions\<close> is the reference transform in which step 1 collapses
  the maximal runs of three or more identical word characters (alphanumeric or underscore)
  and leaves the runs of other characters; \<^verbatim>\<open>Reeeequest\<close> becomes \<^verbatim>\<open>Request\<close> and
  \<^verbatim>\<open>Proposal Draft Proposal\<close> becomes \<^verbatim>\<open>Proposal Draft\<close>.
\<close>

theorem clean_repetitions_refines:
  "clean_repetitions db s = spec_clean_repetitions (is_word db) db s
   \<and> clean_repetitions ascii_tables (lit ''Reeeequest'') = lit ''Request''
   \<and> clean_repetitions ascii_tables (lit ''Proposal Draft Proposal'') = lit ''Proposal Draft''"
proof -
  have "clean_repetitions ascii_tables (lit ''Reeeequest'') = lit ''Request''"
    by (simp add: clean_repetitions_def py_split_def ascii_tables_def is_word_def lit_def)
  moreover have "clean_repetitions ascii_tables (lit ''Proposal Draft Proposal'')
                 = lit ''Proposal Draft''"
    by (simp add: clean_repetitions_def py_split_def ascii_tables_def is_word_def lit_def)
  ultimately show ?thesis
    using clean_repetitions_spec [of db s] by simp
qed

theorem clean_repetitions_refines_witness:
  "spec_clean_repetitions (is_word ascii_tables) ascii_tables (lit ''Sooooon   1000 --- Sooooon'')
   = lit ''Son 10 ---''"
proof -
  have "clean_repetitions ascii_tables (lit ''Sooooon   1000 --- Sooooon'') = lit ''Son 10 ---''"
    by (simp add: clean_repetitions_def py_split_def ascii_tables_def is_word_def lit_def)
  with clean_repetitions_refines [of ascii_tables "lit ''Sooooon   1000 --- Sooooon''"]
  show ?thesis by simp
qed

end
